theory Spec2Isabelle
  imports Complex_Main
begin

section \<open>The particle-field renderer of ParticleCanvas\<close>

text \<open>
  A shallow embedding of the \<^verbatim>\<open>render\<close> callback of \<^verbatim>\<open>ParticleCanvas\<close>
  (src/unnamed/part_000, lines 12-40 and 72-344) and of the settings type of src/types.ts.

  JavaScript numbers are modelled as follows. Grid indices, canvas sizes and glyph indices
  are integers in the source and are \<open>nat\<close> or \<open>int\<close> here. Every other number is a
  \<open>real\<close>. Where a comparison or a floor decides what is drawn (the audio level, the
  brightness, the effective threshold, the density hash, the glyph index of the ramps and
  of shape char) every operation rounds its exact result to the nearest double with
  \<open>double_round\<close>, and a decimal literal is the double nearest to it. \<^verbatim>\<open>Math.sin\<close> of
  the density hash is implementation-approximated, so it is a parameter of the call.
  Positions, sizes and colours, which no comparison of the claims reads, are computed with
  exact arithmetic.
  \<^verbatim>\<open>Math.random()\<close> is an explicit stream \<open>nat \<Rightarrow> real\<close> read through a call counter that
  every function threads. The drawing context is a log: every method call and property
  assignment on the 2D context is one entry of a list, in program order.
\<close>

subsection \<open>Settings (src/types.ts)\<close>

datatype ColorMode = Mode_natural | Mode_grayscale | Mode_cyber | Mode_heat | Mode_matrix

datatype ParticleShape =
  Shape_circle | Shape_square | Shape_cross | Shape_char | Shape_matrix | Shape_blocks
  | Shape_ascii | Shape_geometric

datatype AnimationMode = Anim_none | Anim_wave | Anim_ripple | Anim_scan | Anim_jitter

record ParticleSettings =
  pixelSize :: real
  threshold :: real
  density :: real
  colorMode :: ColorMode
  hueShift :: real
  shape :: ParticleShape
  animationMode :: AnimationMode
  glow :: real
  offsetX :: real
  offsetY :: real

subsection \<open>JavaScript arithmetic used by the renderer\<close>

text \<open>The \<^verbatim>\<open>%\<close> operator truncates the quotient towards zero, so the result has the sign
  of the dividend. The renderer only divides by positive numbers.\<close>

definition js_trunc :: "real \<Rightarrow> int" where
  "js_trunc q = (if 0 \<le> q then \<lfloor>q\<rfloor> else \<lceil>q\<rceil>)"

definition js_rem :: "real \<Rightarrow> real \<Rightarrow> real" where
  "js_rem a b = a - b * of_int (js_trunc (a / b))"

definition js_rem_int :: "int \<Rightarrow> int \<Rightarrow> int" where
  "js_rem_int a b = sgn a * (\<bar>a\<bar> mod \<bar>b\<bar>)"

text \<open>Rounding to the nearest double, ties to even: a double in the binade of exponent
  \<open>e\<close> is an integer multiple of 2 to the power \<open>e - 52\<close>, and below the smallest normal
  number the spacing stays that of exponent -1022. Overflow to infinity is not modelled;
  the renderer stays far below it.\<close>

definition round_even :: "real \<Rightarrow> int" where
  "round_even y =
     (let f = \<lfloor>y\<rfloor>; d = y - of_int f
      in if d < 1 / 2 then f else if 1 / 2 < d then f + 1 else if even f then f else f + 1)"

definition double_round :: "real \<Rightarrow> real" where
  "double_round x =
     (if x = 0 then 0
      else (let e = max (- 1022) \<lfloor>log 2 \<bar>x\<bar>\<rfloor>; u = 2 powr (of_int e - 52)
            in u * of_int (round_even (x / u))))"

text \<open>\<^verbatim>\<open>Math.atan2(y, x)\<close> on reals; a zero argument is the positive zero that a
  subtraction of equal numbers produces.\<close>

definition atan2 :: "real \<Rightarrow> real \<Rightarrow> real" where
  "atan2 y x =
     (if 0 < x then arctan (y / x)
      else if x < 0 then (if 0 \<le> y then arctan (y / x) + pi else arctan (y / x) - pi)
      else if 0 < y then pi / 2
      else if y < 0 then - (pi / 2)
      else 0)"

subsection \<open>rgbToHsl\<close>

record hsl =
  hsl_h :: real
  hsl_s :: real
  hsl_l :: real

definition rgbToHsl :: "real \<Rightarrow> real \<Rightarrow> real \<Rightarrow> hsl" where
  "rgbToHsl r0 g0 b0 =
     (let r = r0 / 255; g = g0 / 255; b = b0 / 255;
          mx = max r (max g b); mn = min r (min g b);
          l = (mx + mn) / 2
      in if mx \<noteq> mn then
           (let d = mx - mn;
                s = (if l > 0.5 then d / (2 - mx - mn) else d / (mx + mn));
                h = (if mx = r then (g - b) / d + (if g < b then 6 else 0)
                     else if mx = g then (b - r) / d + 2
                     else if mx = b then (r - g) / d + 4
                     else 0)
            in \<lparr>hsl_h = h / 6 * 360, hsl_s = s * 100, hsl_l = l * 100\<rparr>)
         else \<lparr>hsl_h = 0 * 360, hsl_s = 0 * 100, hsl_l = l * 100\<rparr>)"

subsection \<open>Glyph tables\<close>

text \<open>A JavaScript string is a sequence of UTF-16 code units; every glyph of
  \<^verbatim>\<open>CHAR_SETS\<close> is one code unit.\<close>

type_synonym glyph = nat

definition CHAR_SETS_char :: "glyph list" where
  "CHAR_SETS_char = [0x31, 0x30]"

definition CHAR_SETS_matrix :: "glyph list" where
  "CHAR_SETS_matrix =
     [0xFF8A, 0xFF90, 0xFF8B, 0xFF70, 0xFF73, 0xFF7C, 0xFF85, 0xFF93, 0xFF86, 0xFF7B,
      0xFF9C, 0xFF82, 0xFF75, 0xFF98, 0xFF71, 0xFF8E, 0xFF83, 0xFF8F, 0xFF79, 0xFF92,
      0xFF74, 0xFF76, 0xFF77, 0xFF91, 0xFF95, 0xFF97, 0xFF7E, 0xFF88, 0xFF7D, 0xFF80,
      0xFF87, 0xFF8D, 0x31, 0x32, 0x33, 0x34, 0x35, 0x37, 0x38, 0x39, 0x30]"

definition CHAR_SETS_blocks :: "glyph list" where
  "CHAR_SETS_blocks = [0x20, 0x2591, 0x2592, 0x2593, 0x2588]"

definition CHAR_SETS_ascii :: "glyph list" where
  "CHAR_SETS_ascii = [0x20, 0x2E, 0x3A, 0x2D, 0x3D, 0x2B, 0x2A, 0x23, 0x25, 0x40]"

definition CHAR_SETS_geometric :: "glyph list" where
  "CHAR_SETS_geometric = [0x25B2, 0x25BC, 0x25C6, 0x25CF, 0x25A0]"

text \<open>Lines 153-160: the table of the active shape; the three non-text shapes keep the
  initial value \<^verbatim>\<open>CHAR_SETS.char\<close>.\<close>

definition currentCharset :: "ParticleShape \<Rightarrow> glyph list" where
  "currentCharset sh =
     (if sh = Shape_char then CHAR_SETS_char
      else if sh = Shape_matrix then CHAR_SETS_matrix
      else if sh = Shape_blocks then CHAR_SETS_blocks
      else if sh = Shape_ascii then CHAR_SETS_ascii
      else if sh = Shape_geometric then CHAR_SETS_geometric
      else CHAR_SETS_char)"

definition isTextShape :: "ParticleShape \<Rightarrow> bool" where
  "isTextShape sh =
     (sh = Shape_char \<or> sh = Shape_matrix \<or> sh = Shape_blocks \<or> sh = Shape_ascii
      \<or> sh = Shape_geometric)"

text \<open>Indexing a string: outside the string the result is \<^verbatim>\<open>undefined\<close>.\<close>

definition charAt :: "glyph list \<Rightarrow> int \<Rightarrow> glyph option" where
  "charAt cs j = (if 0 \<le> j \<and> j < int (length cs) then Some (cs ! nat j) else None)"

subsection \<open>The drawing context as a log\<close>

datatype color = Hsl real real real

text \<open>\<open>SetFont n\<close> is the assignment of \<^verbatim>\<open>bold <n>px monospace\<close> to \<^verbatim>\<open>ctx.font\<close>;
  \<open>FillText None x y\<close> is \<^verbatim>\<open>fillText(undefined, x, y)\<close>.\<close>

datatype canvas_op =
    ClearRect real real real real
  | SetFont real
  | SetTextAlignCenter
  | SetTextBaselineMiddle
  | SetFillStyle color
  | SetShadowBlur real
  | SetShadowColor color
  | FillText "glyph option" real real
  | FillRect real real real real
  | SetStrokeStyle color
  | SetLineWidth real
  | BeginPath
  | MoveTo real real
  | LineTo real real
  | Stroke
  | Arc real real real real real
  | Fill

subsection \<open>The constants of one render call\<close>

text \<open>The values that \<^verbatim>\<open>render\<close> computes before the cell loop (lines 78-110, 150-160)
  and that the loop body reads. \<open>cellSize\<close> is the local constant \<^verbatim>\<open>pixelSize\<close> of
  line 106, the clamped integer cell edge; the table and the flag of lines 153-160 are
  \<open>currentCharset\<close> and \<open>isTextShape\<close> of the shape.\<close>

record frame =
  settings :: ParticleSettings
  time :: real
  elapsed :: real
  audioLevel :: real
  beat :: real
  dynamicGlow :: real
  w :: nat
  h :: nat
  cellSize :: nat
  cols :: nat
  random :: "nat \<Rightarrow> real"
  mathSin :: "real \<Rightarrow> real"

subsection \<open>The loop body (lines 170-339)\<close>

text \<open>Lines 175-179. The first argument is \<^verbatim>\<open>Math.sin\<close>.\<close>

definition density_skip :: "(real \<Rightarrow> real) \<Rightarrow> real \<Rightarrow> nat \<Rightarrow> nat \<Rightarrow> bool" where
  "density_skip sn d col row =
     (if d < 1.0 then
        (let noise =
               \<bar>double_round
                  (sn (double_round
                         (double_round (real col * double_round 12.9898)
                          + double_round (real row * double_round 78.233)))
                   * double_round 43758.5453)\<bar>;
             randomVal = double_round (noise - of_int \<lfloor>noise\<rfloor>)
         in randomVal > d)
      else False)"

text \<open>Line 187.\<close>

definition effectiveThreshold :: "real \<Rightarrow> real \<Rightarrow> real" where
  "effectiveThreshold th level = max 0 (double_round (th - double_round (level * 50)))"

text \<open>Lines 203-232. The second assignment of the ripple case reads the \<open>x\<close> that the
  first one has already moved.\<close>

definition animate :: "frame \<Rightarrow> real \<Rightarrow> real \<Rightarrow> real \<Rightarrow> nat \<Rightarrow> (real \<times> real) \<times> nat" where
  "animate f audioTime x y k =
     (case animationMode (settings f) of
        Anim_none \<Rightarrow> ((x, y), k)
      | Anim_wave \<Rightarrow> ((x, y + sin (x * 0.02 + audioTime * 0.5) * (20 + beat f * 20)), k)
      | Anim_ripple \<Rightarrow>
          (let centerX = real (w f) / 2;
               centerY = real (h f) / 2;
               dist = sqrt ((x - centerX)\<^sup>2 + (y - centerY)\<^sup>2);
               offset = sin (dist * 0.02 - audioTime * 1.5) * (15 + beat f * 15);
               x1 = x + cos (atan2 (y - centerY) (x - centerX)) * offset;
               y1 = y + sin (atan2 (y - centerY) (x1 - centerX)) * offset
           in ((x1, y1), k))
      | Anim_jitter \<Rightarrow>
          (let jitterAmount = 4 + audioLevel f * 10;
               x1 = x + (random f k - 0.5) * jitterAmount;
               y1 = y + (random f (k + 1) - 0.5) * jitterAmount
           in ((x1, y1), k + 2))
      | Anim_scan \<Rightarrow>
          (let scanPos = js_rem (elapsed f * 50) (real (h f) + 100) - 50
           in if \<bar>y - scanPos\<bar> < 40 + beat f * 50
              then ((x + (random f k - 0.5) * 15, y), k + 1)
              else ((x, y), k)))"

text \<open>Lines 236-263.\<close>

definition fillStyle_of :: "ParticleSettings \<Rightarrow> real \<Rightarrow> hsl \<Rightarrow> color" where
  "fillStyle_of s bt c =
     (let lightness = hsl_l c
      in case colorMode s of
           Mode_grayscale \<Rightarrow> Hsl 0 0 lightness
         | Mode_cyber \<Rightarrow>
             Hsl (js_rem (180 + lightness / 2 + hueShift s + bt * 30) 360) 80
                 (min 100 (lightness + 20 + bt * 20))
         | Mode_heat \<Rightarrow>
             Hsl (js_rem (270 + lightness * 1.5 + hueShift s + bt * 60) 360) 100
                 (lightness + bt * 10)
         | Mode_matrix \<Rightarrow>
             Hsl (js_rem (120 + hueShift s) 360) 100 (min 100 (lightness * 1.5 + bt * 30))
         | Mode_natural \<Rightarrow>
             Hsl (js_rem (hsl_h c + hueShift s) 360) (hsl_s c) (min 100 (hsl_l c + bt * 10)))"

text \<open>Lines 268-273.\<close>

definition glow_ops :: "real \<Rightarrow> color \<Rightarrow> canvas_op list" where
  "glow_ops g fillStyle =
     (if g > 0 then [SetShadowBlur g, SetShadowColor fillStyle] else [SetShadowBlur 0])"

text \<open>Lines 278-310: the glyph index before the final remainder. Only the geometric case
  calls \<^verbatim>\<open>Math.random()\<close>, and only when \<open>beat > 0.2\<close>.\<close>

definition charIndex_of :: "frame \<Rightarrow> nat \<Rightarrow> nat \<Rightarrow> real \<Rightarrow> nat \<Rightarrow> int \<times> nat" where
  "charIndex_of f col row brightness k =
     (let sh = shape (settings f); len = int (length (currentCharset sh))
      in if sh = Shape_blocks \<or> sh = Shape_ascii then
           (let normalizedBrightness = double_round (brightness / 255);
                charIndex = \<lfloor>double_round (normalizedBrightness * real_of_int (len - 1))\<rfloor>
            in if beat f > 0.1
               then (min (len - 1) (charIndex + \<lfloor>double_round (beat f * 2)\<rfloor>), k)
               else (charIndex, k))
         else if sh = Shape_matrix then
           (let timeSeed = \<lfloor>time f * 0.005\<rfloor>;
                fastSeed = \<lfloor>time f * 0.05\<rfloor>;
                seed = (if beat f > 0.2 then fastSeed else timeSeed)
            in (js_rem_int (int col + int row * 13 + seed) len, k))
         else if sh = Shape_geometric then
           (let seed = int col * 3 + int row * 7;
                charIndex = js_rem_int seed len
            in if beat f > 0.2 then
                 (if random f k > 0.5 then (js_rem_int (charIndex + 1) len, k + 1)
                  else (charIndex, k + 1))
               else (charIndex, k))
         else (\<lfloor>double_round (double_round (brightness / 255) * real_of_int len)\<rfloor>, k))"

text \<open>Lines 276-338.\<close>

definition shape_ops ::
  "frame \<Rightarrow> nat \<Rightarrow> nat \<Rightarrow> real \<Rightarrow> real \<Rightarrow> real \<Rightarrow> real \<Rightarrow> color \<Rightarrow> nat \<Rightarrow> canvas_op list \<times> nat"
where
  "shape_ops f col row brightness renderSize x y fillStyle k =
     (let sh = shape (settings f)
      in if isTextShape sh then
           (let (charIndex, k1) = charIndex_of f col row brightness k;
                cs = currentCharset sh
            in ([FillText (charAt cs (js_rem_int charIndex (int (length cs)))) x y], k1))
         else if sh = Shape_square then
           (let gap = 1
            in ([FillRect (x - renderSize / 2 + gap) (y - renderSize / 2 + gap)
                   (renderSize - gap * 2) (renderSize - gap * 2)], k))
         else if sh = Shape_cross then
           (let s = renderSize / 3
            in ([SetStrokeStyle fillStyle, SetLineWidth (max 1 (renderSize / 8)), BeginPath,
                 MoveTo (x - s) y, LineTo (x + s) y, MoveTo x (y - s), LineTo x (y + s),
                 Stroke], k))
         else ([BeginPath, Arc x y (renderSize * 0.4) 0 (pi * 2), Fill], k))"

text \<open>Lines 190-338: the body of \<^verbatim>\<open>if (brightness > effectiveThreshold)\<close>.\<close>

definition renderSize_of :: "frame \<Rightarrow> real \<Rightarrow> real" where
  "renderSize_of f brightness =
     (let audioSizeBoost = brightness / 255 * beat f * real (cellSize f)
      in real (cellSize f) * (if isTextShape (shape (settings f)) then 1 else 0.8)
         + audioSizeBoost)"

definition draw_cell ::
  "frame \<Rightarrow> nat \<Rightarrow> nat \<Rightarrow> real \<Rightarrow> real \<Rightarrow> real \<Rightarrow> real \<Rightarrow> nat \<Rightarrow> canvas_op list \<times> nat"
where
  "draw_cell f col row r g b brightness k =
     (let x = real col * real (cellSize f) + real (cellSize f) / 2;
          y = real row * real (cellSize f) + real (cellSize f) / 2;
          renderSize = renderSize_of f brightness;
          audioTime = elapsed f * (1 + beat f * 2);
          ((x1, y1), k1) = animate f audioTime x y k;
          fillStyle = fillStyle_of (settings f) (beat f) (rgbToHsl r g b);
          (ops, k2) = shape_ops f col row brightness renderSize x1 y1 fillStyle k1
      in (SetFillStyle fillStyle # glow_ops (dynamicGlow f) fillStyle @ ops, k2))"

text \<open>Reading the pixel buffer: an index outside a typed array gives \<^verbatim>\<open>undefined\<close>, the
  sum with it is NaN, and a comparison with NaN is false, so the cell is not drawn.\<close>

definition data_at :: "nat list \<Rightarrow> nat \<Rightarrow> real option" where
  "data_at data i = (if i < length data then Some (real (data ! i)) else None)"

text \<open>Line 184: \<^verbatim>\<open>(r + g + b) / 3\<close>, every operation rounded.\<close>

definition brightness_of :: "real \<Rightarrow> real \<Rightarrow> real \<Rightarrow> real" where
  "brightness_of r g b = double_round (double_round (double_round (r + g) + b) / 3)"

definition brightness_at :: "nat list \<Rightarrow> nat \<Rightarrow> real option" where
  "brightness_at data i =
     (case (data_at data i, data_at data (i + 1), data_at data (i + 2)) of
        (Some r, Some g, Some b) \<Rightarrow> Some (brightness_of r g b)
      | _ \<Rightarrow> None)"

definition shade_cell :: "frame \<Rightarrow> nat list \<Rightarrow> nat \<Rightarrow> nat \<Rightarrow> nat \<Rightarrow> nat \<Rightarrow> canvas_op list \<times> nat" where
  "shade_cell f data i col row k =
     (case (data_at data i, data_at data (i + 1), data_at data (i + 2)) of
        (Some r, Some g, Some b) \<Rightarrow>
          (let brightness = brightness_of r g b;
               effTh = effectiveThreshold (threshold (settings f)) (audioLevel f)
           in if brightness > effTh then draw_cell f col row r g b brightness k else ([], k))
      | _ \<Rightarrow> ([], k))"

definition cell_col :: "frame \<Rightarrow> nat \<Rightarrow> nat" where
  "cell_col f i = (i div 4) mod cols f"

definition cell_row :: "frame \<Rightarrow> nat \<Rightarrow> nat" where
  "cell_row f i = (i div 4) div cols f"

definition render_cell :: "frame \<Rightarrow> nat list \<Rightarrow> nat \<Rightarrow> nat \<Rightarrow> canvas_op list \<times> nat" where
  "render_cell f data i k =
     (let col = cell_col f i; row = cell_row f i
      in if density_skip (mathSin f) (density (settings f)) col row then ([], k)
         else shade_cell f data i col row k)"

subsection \<open>The cell loop (line 169)\<close>

text \<open>One entry per iteration: the cell it visits and what it appends to the log.\<close>

function cell_loop ::
  "frame \<Rightarrow> nat list \<Rightarrow> nat \<Rightarrow> nat \<Rightarrow> (nat \<times> nat \<times> canvas_op list) list \<times> nat"
where
  "cell_loop f data i k =
     (if i < length data then
        (let (ops, k1) = render_cell f data i k;
             (rest, k2) = cell_loop f data (i + 4) k1
         in ((cell_col f i, cell_row f i, ops) # rest, k2))
      else ([], k))"
  by pat_completeness auto
termination
  by (relation "measure (\<lambda>(f, data, i, k). length data - i)") auto

declare cell_loop.simps [simp del]

definition loop_ops :: "(nat \<times> nat \<times> canvas_op list) list \<Rightarrow> canvas_op list" where
  "loop_ops entries = concat (map (\<lambda>(col, row, ops). ops) entries)"

subsection \<open>The render callback (lines 72-344)\<close>

record video =
  readyState :: nat
  src :: string
  srcObject :: bool

datatype frame_source = Background | Webcam

datatype composite = SourceOver | Screen

text \<open>The calls on the off-screen analysis canvas, in program order.\<close>

datatype analysis_op =
    Resize nat nat
  | SetComposite composite
  | SetFillBlack
  | AnalysisFillRect nat nat
  | DrawImage frame_source nat nat
  | Save
  | Translate nat nat
  | Scale int int
  | Restore
  | GetImageData nat nat

datatype dom_error = IndexSizeError

text \<open>What one call of \<^verbatim>\<open>render\<close> reads from its closure and from the page.
  \<open>analyser\<close> is the content of the 128-byte array after \<^verbatim>\<open>getByteFrequencyData\<close>,
  \<open>frameData\<close> is the array that \<^verbatim>\<open>getImageData\<close> returns after the composition step,
  \<open>mathRandom\<close> and \<open>envSin\<close> are \<^verbatim>\<open>Math.random\<close> and \<^verbatim>\<open>Math.sin\<close> of the engine.\<close>

record env =
  isPlaying :: bool
  envSettings :: ParticleSettings
  analyser :: "(nat \<Rightarrow> nat) option"
  bgVideo :: "video option"
  camVideo :: "video option"
  canvasWidth :: nat
  canvasHeight :: nat
  startTime :: real
  analysisSize :: "nat \<times> nat"
  frameData :: "nat list"
  mathRandom :: "nat \<Rightarrow> real"
  envSin :: "real \<Rightarrow> real"

text \<open>What the call does: the log of the output surface, the log of the analysis canvas,
  whether \<^verbatim>\<open>getByteFrequencyData\<close> was called on the audio analyser, whether
  \<^verbatim>\<open>requestAnimationFrame(render)\<close> was called, and the number of
  \<^verbatim>\<open>Math.random()\<close> calls so far.\<close>

record outcome =
  surface :: "canvas_op list"
  analysis :: "analysis_op list"
  audioRead :: bool
  scheduled :: bool
  randomCalls :: nat

text \<open>Lines 79-88. The sum of 128 bytes is an integer below 2 to the power 53, so the
  additions of the loop are exact.\<close>

definition audioLevel_of :: "(nat \<Rightarrow> nat) option \<Rightarrow> real" where
  "audioLevel_of an =
     (case an of
        None \<Rightarrow> 0
      | Some a \<Rightarrow>
          double_round (double_round (real (sum_list (map a [0..<128])) / 128) / 255))"

text \<open>Lines 100-101.\<close>

definition bgReady :: "video option \<Rightarrow> bool" where
  "bgReady v = (case v of None \<Rightarrow> False | Some b \<Rightarrow> readyState b \<ge> 2 \<and> src b \<noteq> [])"

definition camReady :: "video option \<Rightarrow> bool" where
  "camReady v = (case v of None \<Rightarrow> False | Some c \<Rightarrow> srcObject c \<and> readyState c \<ge> 2)"

text \<open>Lines 113-144.\<close>

definition composition_ops :: "env \<Rightarrow> nat \<Rightarrow> nat \<Rightarrow> analysis_op list" where
  "composition_ops e c r =
     (if fst (analysisSize e) \<noteq> c \<or> snd (analysisSize e) \<noteq> r then [Resize c r] else [])
     @ [SetComposite SourceOver, SetFillBlack, AnalysisFillRect c r]
     @ (if bgReady (bgVideo e) then [DrawImage Background c r] else [])
     @ (if camReady (camVideo e)
        then [SetComposite Screen, Save, Translate c 0, Scale (- 1) 1, DrawImage Webcam c r,
              Restore, SetComposite SourceOver]
        else [])
     @ [GetImageData c r]"

text \<open>Lines 162-166.\<close>

definition font_ops :: "ParticleShape \<Rightarrow> nat \<Rightarrow> real \<Rightarrow> canvas_op list" where
  "font_ops sh ps bt =
     (if isTextShape sh
      then [SetFont (max 4 (real ps * 0.9 + bt * 2)), SetTextAlignCenter,
            SetTextBaselineMiddle]
      else [])"

definition grid_pixelSize :: "ParticleSettings \<Rightarrow> nat" where
  "grid_pixelSize s = nat (max 2 \<lfloor>pixelSize s\<rfloor>)"

definition grid_cols :: "env \<Rightarrow> nat" where
  "grid_cols e = nat \<lceil>real (canvasWidth e) / real (grid_pixelSize (envSettings e))\<rceil>"

definition grid_rows :: "env \<Rightarrow> nat" where
  "grid_rows e = nat \<lceil>real (canvasHeight e) / real (grid_pixelSize (envSettings e))\<rceil>"

definition frame_of :: "env \<Rightarrow> real \<Rightarrow> frame" where
  "frame_of e t =
     (let level = audioLevel_of (analyser e)
      in \<lparr>settings = envSettings e,
          time = t,
          elapsed = (t - startTime e) * 0.001,
          audioLevel = level,
          beat = level powr 1.5,
          dynamicGlow = glow (envSettings e) + level * 20,
          w = canvasWidth e,
          h = canvasHeight e,
          cellSize = grid_pixelSize (envSettings e),
          cols = grid_cols e,
          random = mathRandom e,
          mathSin = envSin e\<rparr>)"

text \<open>\<^verbatim>\<open>getImageData\<close> throws when the grid has no column or no row; the exception
  leaves the callback before the next tick is requested.\<close>

definition render :: "env \<Rightarrow> real \<Rightarrow> nat \<Rightarrow> dom_error + outcome" where
  "render e t k =
     (if \<not> isPlaying e then
        Inr \<lparr>surface = [], analysis = [], audioRead = False, scheduled = True,
             randomCalls = k\<rparr>
      else if bgReady (bgVideo e) \<or> camReady (camVideo e) then
        (let f = frame_of e t; c = grid_cols e; r = grid_rows e
         in if c = 0 \<or> r = 0 then Inl IndexSizeError
            else
              (let (entries, k1) = cell_loop f (frameData e) 0 k
               in Inr \<lparr>surface =
                         ClearRect 0 0 (real (canvasWidth e)) (real (canvasHeight e))
                         # font_ops (shape (envSettings e)) (cellSize f) (beat f)
                         @ loop_ops entries,
                       analysis = composition_ops e c r,
                       audioRead = (analyser e \<noteq> None),
                       scheduled = True,
                       randomCalls = k1\<rparr>))
      else Inr \<lparr>surface = [], analysis = [], audioRead = (analyser e \<noteq> None),
                scheduled = True, randomCalls = k\<rparr>)"

subsection \<open>Observations on a log\<close>

text \<open>The entries that paint: a glyph, a rectangle, a stroked path, a filled path.\<close>

fun is_draw :: "canvas_op \<Rightarrow> bool" where
  "is_draw (FillText c x y) = True"
| "is_draw (FillRect x y a b) = True"
| "is_draw Stroke = True"
| "is_draw Fill = True"
| "is_draw _ = False"

text \<open>The entries that change the font.\<close>

fun is_font :: "canvas_op \<Rightarrow> bool" where
  "is_font (SetFont n) = True"
| "is_font _ = False"

text \<open>The glyphs a log draws, in order.\<close>

fun glyphs_of :: "canvas_op list \<Rightarrow> glyph option list" where
  "glyphs_of [] = []"
| "glyphs_of (FillText c x y # ops) = c # glyphs_of ops"
| "glyphs_of (_ # ops) = glyphs_of ops"

text \<open>The glyph draws of a log with the font size in force at each: the size, the glyph
  and the anchor point. The first argument is the font size before the log.\<close>

fun text_draws :: "real \<Rightarrow> canvas_op list \<Rightarrow> (real \<times> glyph option \<times> real \<times> real) list" where
  "text_draws sz [] = []"
| "text_draws sz (SetFont n # ops) = text_draws n ops"
| "text_draws sz (FillText c x y # ops) = (sz, c, x, y) # text_draws sz ops"
| "text_draws sz (_ # ops) = text_draws sz ops"

text \<open>The cells of a grid in row-major order.\<close>

definition row_major :: "nat \<Rightarrow> nat \<Rightarrow> (nat \<times> nat) list" where
  "row_major c r = concat (map (\<lambda>row. map (\<lambda>col. (col, row)) [0..<c]) [0..<r])"

subsection \<open>Sample inputs\<close>

text \<open>\<^verbatim>\<open>DEFAULT_SETTINGS\<close> of src/types.ts.\<close>

definition DEFAULT_SETTINGS :: ParticleSettings where
  "DEFAULT_SETTINGS =
     \<lparr>pixelSize = 8, threshold = 20, density = 1.0, colorMode = Mode_natural, hueShift = 0,
      shape = Shape_matrix, animationMode = Anim_wave, glow = 0, offsetX = 0, offsetY = 0\<rparr>"

text \<open>A playing canvas of the given size with a ready background video and no webcam,
  showing the given pixel data, with the given analyser content; \<^verbatim>\<open>Math.random()\<close>
  returns the given constant and \<^verbatim>\<open>Math.sin\<close> is the correctly rounded sine.\<close>

definition sample_env ::
  "ParticleSettings \<Rightarrow> (nat \<Rightarrow> nat) option \<Rightarrow> nat \<Rightarrow> nat \<Rightarrow> nat list \<Rightarrow> real \<Rightarrow> env"
where
  "sample_env s an cw ch data rnd =
     \<lparr>isPlaying = True, envSettings = s, analyser = an,
      bgVideo = Some \<lparr>readyState = 4, src = ''clip'', srcObject = False\<rparr>,
      camVideo = None, canvasWidth = cw, canvasHeight = ch, startTime = 0,
      analysisSize = (0, 0), frameData = data, mathRandom = (\<lambda>n. rnd),
      envSin = (\<lambda>x. double_round (sin x))\<rparr>"

text \<open>An analyser whose 128 bins are all at the maximum: audio level 1.\<close>

definition loud :: "(nat \<Rightarrow> nat) option" where
  "loud = Some (\<lambda>n. 255)"


text \<open>The constants of the render call on a 24 by 24 surface one second after the start.
  With 8 pixel cells the grid has 3 columns and the centre of cell (1, 1) is the centre of
  the surface.\<close>

definition sample_frame :: "ParticleSettings \<Rightarrow> (nat \<Rightarrow> nat) option \<Rightarrow> real \<Rightarrow> frame" where
  "sample_frame s an rnd = frame_of (sample_env s an 24 24 [] rnd) 1000"

text \<open>The density hash in the words of the specification, in the arithmetic of the
  renderer.\<close>

definition gate_h :: "(real \<Rightarrow> real) \<Rightarrow> nat \<Rightarrow> nat \<Rightarrow> real" where
  "gate_h sn col row =
     \<bar>double_round
        (sn (double_round
               (double_round (double_round 12.9898 * real col)
                + double_round (double_round 78.233 * real row)))
         * double_round 43758.5453)\<bar>"

definition gate_frac :: "(real \<Rightarrow> real) \<Rightarrow> nat \<Rightarrow> nat \<Rightarrow> real" where
  "gate_frac sn col row = double_round (gate_h sn col row - of_int \<lfloor>gate_h sn col row\<rfloor>)"

section \<open>Auxiliary facts\<close>

subsection \<open>Rounding to doubles\<close>

lemma round_even_of_int: "round_even (of_int m) = m"
  by (simp add: round_even_def)

lemma round_even_nonneg: "0 \<le> y \<Longrightarrow> 0 \<le> round_even y"
  by (auto simp add: round_even_def Let_def)

lemma double_round_zero: "double_round 0 = 0"
  by (simp add: double_round_def)

lemma double_round_nonneg: "0 \<le> x \<Longrightarrow> 0 \<le> double_round x"
  by (auto simp add: double_round_def Let_def intro!: mult_nonneg_nonneg round_even_nonneg divide_nonneg_nonneg)

lemma floor_log2_eq:
  assumes "2 powr of_int e \<le> x" "x < 2 powr (of_int e + 1)"
  shows "\<lfloor>log 2 x\<rfloor> = e"
proof -
  have pos: "0 < x" using assms(1) powr_gt_zero [of 2 "of_int e"] by linarith
  have "of_int e \<le> log 2 x" using assms(1) pos by (simp add: le_log_iff)
  moreover have "log 2 x < of_int e + 1" using assms(2) pos by (simp add: log_less_iff)
  ultimately show ?thesis by (simp add: floor_eq_iff)
qed

lemma double_round_scale:
  assumes "2 powr of_int e \<le> \<bar>x\<bar>" "\<bar>x\<bar> < 2 powr (of_int e + 1)" "- 1022 \<le> e"
  shows "double_round x = 2 powr (of_int e - 52) * of_int (round_even (x / 2 powr (of_int e - 52)))"
proof -
  have "x \<noteq> 0" using assms(1) powr_gt_zero [of 2 "of_int e"] by auto
  moreover have "\<lfloor>log 2 \<bar>x\<bar>\<rfloor> = e" using assms(1,2) by (rule floor_log2_eq)
  ultimately show ?thesis using assms(3) by (simp add: double_round_def Let_def)
qed

lemma two_powr_neg: "2 powr (- real m) = 1 / (2::real) ^ m"
proof -
  have "2 powr (- real m) = inverse (2 powr real m)" by (rule powr_minus)
  also have "\<dots> = inverse ((2::real) ^ m)" by (simp only: powr_realpow [of 2 m, simplified])
  finally show ?thesis by (simp only: inverse_eq_divide)
qed

lemma double_round_up:
  assumes "2 ^ k \<le> \<bar>x\<bar>" "\<bar>x\<bar> < 2 * 2 ^ k" "k \<le> 52"
  shows "double_round x = of_int (round_even (x * 2 ^ (52 - k))) / 2 ^ (52 - k)"
proof -
  have a: "2 powr of_int (int k) = (2::real) ^ k"
    using powr_realpow [of 2 k] by simp
  have "2 powr (of_int (int k) + 1) = 2 powr of_int (int k) * 2 powr (1::real)"
    by (rule powr_add)
  then have b: "2 powr (of_int (int k) + 1) = (2::real) * 2 ^ k" by (simp only: a) simp
  have "of_int (int k) - (52::real) = - real (52 - k)" using assms(3) by simp
  then have c: "2 powr (of_int (int k) - 52) = 1 / (2::real) ^ (52 - k)"
    by (simp only: two_powr_neg)
  have "double_round x = 2 powr (of_int (int k) - 52) * of_int (round_even (x / 2 powr (of_int (int k) - 52)))"
  proof (rule double_round_scale)
    show "2 powr of_int (int k) \<le> \<bar>x\<bar>" using assms(1) by (simp only: a)
    show "\<bar>x\<bar> < 2 powr (of_int (int k) + 1)" using assms(2) by (simp only: b)
    show "- 1022 \<le> int k" by simp
  qed
  then show ?thesis unfolding c by simp
qed

lemma double_round_down:
  assumes "1 \<le> \<bar>x\<bar> * 2 ^ k" "\<bar>x\<bar> * 2 ^ k < 2" "k \<le> 1022"
  shows "double_round x = of_int (round_even (x * 2 ^ (52 + k))) / 2 ^ (52 + k)"
proof -
  have "of_int (- int k) = - real k" by simp
  then have a: "2 powr of_int (- int k) = 1 / (2::real) ^ k" by (simp only: two_powr_neg)
  have "2 powr (of_int (- int k) + 1) = 2 powr of_int (- int k) * 2 powr (1::real)"
    by (rule powr_add)
  then have b: "2 powr (of_int (- int k) + 1) = 2 / (2::real) ^ k" by (simp only: a) simp
  have "of_int (- int k) - (52::real) = - real (52 + k)" by simp
  then have c: "2 powr (of_int (- int k) - 52) = 1 / (2::real) ^ (52 + k)"
    by (simp only: two_powr_neg)
  have "double_round x = 2 powr (of_int (- int k) - 52) * of_int (round_even (x / 2 powr (of_int (- int k) - 52)))"
  proof (rule double_round_scale)
    have "1 / 2 ^ k \<le> \<bar>x\<bar>" using assms(1) by (simp add: field_simps)
    then show "2 powr of_int (- int k) \<le> \<bar>x\<bar>" by (simp only: a)
    have "\<bar>x\<bar> < 2 / 2 ^ k" using assms(2) by (simp add: field_simps)
    then show "\<bar>x\<bar> < 2 powr (of_int (- int k) + 1)" by (simp only: b)
    show "- 1022 \<le> - int k" using assms(3) by simp
  qed
  then show ?thesis unfolding c by simp
qed

lemma double_round_of_int:
  assumes "\<bar>n\<bar> < 2 ^ 53"
  shows "double_round (of_int n) = of_int n"
proof (cases "n = 0")
  case True
  then show ?thesis by (simp add: double_round_zero)
next
  case False
  define k where "k = nat \<lfloor>log 2 (real_of_int \<bar>n\<bar>)\<rfloor>"
  have n1: "1 \<le> real_of_int \<bar>n\<bar>" using False by linarith
  then have l0: "0 \<le> log 2 (real_of_int \<bar>n\<bar>)" by simp
  have lo: "real k \<le> log 2 (real_of_int \<bar>n\<bar>)" using l0 by (simp add: k_def)
  have hi: "log 2 (real_of_int \<bar>n\<bar>) < real k + 1" using l0 by (simp add: k_def)
  have p1: "(2::real) ^ k \<le> \<bar>of_int n\<bar>"
    using lo n1 by (simp add: le_log_iff powr_realpow)
  have p2: "\<bar>real_of_int n\<bar> < 2 * 2 ^ k"
  proof -
    have "real_of_int \<bar>n\<bar> < 2 powr (real k + 1)" using hi n1 by (simp add: log_less_iff)
    then show ?thesis by (simp add: powr_add powr_realpow)
  qed
  have lt: "real_of_int \<bar>n\<bar> < 9007199254740992"
    using assms of_int_less_iff [of "\<bar>n\<bar>" "2 ^ 53", where ?'a = real] by simp
  have small: "(2::real) ^ k < 9007199254740992" using p1 lt by simp
  have "k < 53"
  proof (rule ccontr)
    assume "\<not> k < 53"
    then have "53 \<le> k" by simp
    then have "(2::real) ^ 53 \<le> 2 ^ k" by (intro power_increasing) simp_all
    then show False using small by simp
  qed
  then have k52: "k \<le> 52" by simp
  have "real_of_int n * 2 ^ (52 - k) = real_of_int (n * 2 ^ (52 - k))" by simp
  then have re: "round_even (real_of_int n * 2 ^ (52 - k)) = n * 2 ^ (52 - k)"
    by (simp only: round_even_of_int)
  have "double_round (of_int n) = of_int (n * 2 ^ (52 - k)) / 2 ^ (52 - k)"
    using double_round_up [OF p1 p2 k52] by (simp only: re)
  also have "\<dots> = of_int n" by simp
  finally show ?thesis .
qed

lemma double_round_numeral:
  "numeral v < (2::int) ^ 53 \<Longrightarrow> double_round (numeral v) = numeral v"
  using double_round_of_int [of "numeral v"] by simp

lemma double_round_one: "double_round 1 = 1"
  using double_round_of_int [of 1] by simp






lemma double_round_425_thirds: "double_round (425 / 3) = 4984452712584533 / 35184372088832"
  using double_round_up [where x = "425 / 3" and k = 7] by (simp add: round_even_def)

lemma double_round_425_normalized: "double_round (4984452712584533 / 35184372088832 / 255) = 5003999585967217 / 9007199254740992"
  using double_round_down [where x = "4984452712584533 / 35184372088832 / 255" and k = 1] by (simp add: round_even_def)

lemma double_round_425_scaled: "double_round (5003999585967217 / 9007199254740992 * 9) = 5629499534213119 / 1125899906842624"
  using double_round_up [where x = "5003999585967217 / 9007199254740992 * 9" and k = 2] by (simp add: round_even_def)

subsection \<open>Remainders and glyph tables\<close>

lemma js_rem_int_nonneg: "0 \<le> a \<Longrightarrow> js_rem_int a b = a mod \<bar>b\<bar>"
  by (cases "a = 0") (simp_all add: js_rem_int_def)

lemma js_rem_int_range: "0 \<le> a \<Longrightarrow> 0 < b \<Longrightarrow> 0 \<le> js_rem_int a b \<and> js_rem_int a b < b"
  by (simp add: js_rem_int_nonneg)

lemma js_rem_nonneg:
  assumes "0 \<le> a" "0 < b"
  shows "js_rem a b = a - b * of_int \<lfloor>a / b\<rfloor>"
  using assms by (simp add: js_rem_def js_trunc_def)

lemma charset_length:
  "length (currentCharset sh) =
     (if sh = Shape_matrix then 41 else if sh = Shape_blocks then 5
      else if sh = Shape_ascii then 10 else if sh = Shape_geometric then 5 else 2)"
  by (simp add: currentCharset_def CHAR_SETS_char_def CHAR_SETS_matrix_def
        CHAR_SETS_blocks_def CHAR_SETS_ascii_def CHAR_SETS_geometric_def)

lemma charset_nonempty: "0 < length (currentCharset sh)"
  by (simp add: charset_length)

lemma charAt_in_range:
  "0 \<le> j \<Longrightarrow> j < int (length cs) \<Longrightarrow> \<exists>g. charAt cs j = Some g \<and> g \<in> set cs"
  by (simp add: charAt_def)

lemma charIndex_nonneg:
  assumes "0 \<le> br" "0 \<le> time f"
  shows "0 \<le> fst (charIndex_of f col row br k)"
proof -
  let ?sh = "shape (settings f)"
  let ?len = "int (length (currentCharset ?sh))"
  have len: "0 < ?len" using charset_nonempty by simp
  have nb: "0 \<le> double_round (br / 255)"
    using assms(1) by (intro double_round_nonneg) simp
  have "0 \<le> ?len - 1" using len by linarith
  then have "0 \<le> real_of_int (?len - 1)" by (simp only: of_int_0_le_iff)
  then have "0 \<le> double_round (br / 255) * real_of_int (?len - 1)"
    using nb by (intro mult_nonneg_nonneg)
  then have "0 \<le> double_round (double_round (br / 255) * real_of_int (?len - 1))"
    by (rule double_round_nonneg)
  then have a: "0 \<le> \<lfloor>double_round (double_round (br / 255) * real_of_int (?len - 1))\<rfloor>"
    by simp
  have b: "0 \<le> \<lfloor>double_round (beat f * 2)\<rfloor>" if "beat f > 0.1"
  proof -
    have "0 \<le> double_round (beat f * 2)" using that by (intro double_round_nonneg) simp
    then show ?thesis by simp
  qed
  have c: "0 \<le> \<lfloor>time f * 0.005\<rfloor>" "0 \<le> \<lfloor>time f * 0.05\<rfloor>" using assms(2) by simp_all
  have "0 \<le> double_round (br / 255) * real_of_int ?len"
    using nb len by (intro mult_nonneg_nonneg) simp_all
  then have "0 \<le> double_round (double_round (br / 255) * real_of_int ?len)"
    by (rule double_round_nonneg)
  then have d: "0 \<le> \<lfloor>double_round (double_round (br / 255) * real_of_int ?len)\<rfloor>"
    by simp
  show ?thesis
    using a b c d len
    by (auto simp add: charIndex_of_def Let_def js_rem_int_nonneg)
qed

lemma charIndex_final_in_range:
  assumes "0 \<le> br" "0 \<le> time f"
  shows "0 \<le> js_rem_int (fst (charIndex_of f col row br k)) (int (length (currentCharset (shape (settings f)))))
       \<and> js_rem_int (fst (charIndex_of f col row br k)) (int (length (currentCharset (shape (settings f)))))
           < int (length (currentCharset (shape (settings f))))"
  using charIndex_nonneg [OF assms] charset_nonempty [of "shape (settings f)"]
  by (intro js_rem_int_range) simp_all

lemma shape_ops_text:
  "isTextShape (shape (settings f)) \<Longrightarrow>
   shape_ops f col row br rs x y c k =
     ([FillText (charAt (currentCharset (shape (settings f)))
          (js_rem_int (fst (charIndex_of f col row br k))
             (int (length (currentCharset (shape (settings f))))))) x y],
      snd (charIndex_of f col row br k))"
  by (simp add: shape_ops_def Let_def split: prod.splits)



subsection \<open>The loop body\<close>

lemma atan2_zero: "atan2 0 x = (if x < 0 then pi else 0)"
  by (simp add: atan2_def)

lemma sin_atan2_zero: "sin (atan2 0 x) = 0"
  by (simp add: atan2_zero)

lemma shade_cell_brightness:
  "shade_cell f data i col row k =
     (case brightness_at data i of
        None \<Rightarrow> ([], k)
      | Some br \<Rightarrow>
          if br > effectiveThreshold (threshold (settings f)) (audioLevel f)
          then draw_cell f col row (real (data ! i)) (real (data ! (i + 1))) (real (data ! (i + 2))) br k
          else ([], k))"
  by (auto simp: shade_cell_def brightness_at_def data_at_def Let_def split: option.splits)



lemma draw_cell_hd: "hd (fst (draw_cell f col row r g b br k)) = SetFillStyle (fillStyle_of (settings f) (beat f) (rgbToHsl r g b))"
  by (simp add: draw_cell_def Let_def split: prod.splits)

lemma density_skip_spec:
  "density_skip sn d col row = (d < 1 \<and> gate_frac sn col row > d)"
  by (simp add: density_skip_def gate_frac_def gate_h_def Let_def mult.commute)

lemma glow_no_draw: "filter is_draw (glow_ops g c) = []"
  by (simp add: glow_ops_def)

lemma shape_ops_one_draw: "length (filter is_draw (fst (shape_ops f col row br rs x y c k))) = 1"
  by (simp add: shape_ops_def Let_def split: prod.splits)

lemma draw_cell_one_draw: "length (filter is_draw (fst (draw_cell f col row r g b br k))) = 1"
  by (simp add: draw_cell_def Let_def split_beta glow_no_draw shape_ops_one_draw)

lemma render_cell_at_most_one:
  "length (filter is_draw (fst (render_cell f data i k))) \<le> 1"
  by (simp add: render_cell_def Let_def shade_cell_brightness draw_cell_one_draw
        split: option.splits)

lemma shade_cell_draws:
  "length (filter is_draw (fst (shade_cell f data i col row k))) =
     (case brightness_at data i of
        None \<Rightarrow> 0
      | Some br \<Rightarrow> if br > effectiveThreshold (threshold (settings f)) (audioLevel f) then 1 else 0)"
  by (simp add: shade_cell_brightness draw_cell_one_draw split: option.splits)

lemma render_cell_full_density:
  "1 \<le> density (settings f) \<Longrightarrow>
   render_cell f data i k = shade_cell f data i (cell_col f i) (cell_row f i) k"
  by (simp add: render_cell_def density_skip_def Let_def)

lemma cell_index_back:
  assumes "4 dvd j" "0 < cols f"
  shows "4 * (cell_row f j * cols f + cell_col f j) = j"
  using assms by (auto simp add: cell_col_def cell_row_def)

lemma brightness_defined:
  "i + 2 < length data \<Longrightarrow>
   brightness_at data i =
     Some (brightness_of (real (data ! i)) (real (data ! (i + 1))) (real (data ! (i + 2))))"
  by (simp add: brightness_at_def data_at_def)

lemma no_font_glow: "filter is_font (glow_ops g c) = []"
  by (simp add: glow_ops_def)

lemma no_font_shape: "filter is_font (fst (shape_ops f col row br rs x y c k)) = []"
  by (simp add: shape_ops_def Let_def split_beta)

lemma no_font_draw_cell: "filter is_font (fst (draw_cell f col row r g b br k)) = []"
  by (simp add: draw_cell_def Let_def split_beta no_font_glow no_font_shape)

lemma no_font_render_cell: "filter is_font (fst (render_cell f data i k)) = []"
  by (simp add: render_cell_def Let_def shade_cell_brightness no_font_draw_cell split: option.splits)







subsection \<open>The cell loop\<close>

lemma cell_loop_done: "\<not> i < length data \<Longrightarrow> cell_loop f data i k = ([], k)"
  by (simp add: cell_loop.simps)

lemma cell_loop_step:
  "i < length data \<Longrightarrow>
   fst (cell_loop f data i k) =
     (cell_col f i, cell_row f i, fst (render_cell f data i k))
     # fst (cell_loop f data (i + 4) (snd (render_cell f data i k)))"
  by (subst cell_loop.simps) (simp add: split_beta)

lemma cell_loop_step_snd:
  "i < length data \<Longrightarrow>
   snd (cell_loop f data i k) = snd (cell_loop f data (i + 4) (snd (render_cell f data i k)))"
  by (subst cell_loop.simps) (simp add: split_beta)

lemma cell_loop_visits:
  assumes "length data = 4 * n"
  shows "p \<le> n \<Longrightarrow>
         map (\<lambda>(c, r, ops). (c, r)) (fst (cell_loop f data (4 * p) k)) =
         map (\<lambda>q. (q mod cols f, q div cols f)) [p..<n]"
proof (induction "n - p" arbitrary: p k)
  case 0
  then have "\<not> 4 * p < length data" using assms by simp
  moreover have "[p..<n] = []" using 0 by simp
  ultimately show ?case by (simp add: cell_loop_done)
next
  case (Suc m)
  then have lt: "p < n" by simp
  then have inr: "4 * p < length data" using assms by simp
  have next4: "4 * Suc p = 4 * p + 4" by simp
  have ih: "map (\<lambda>(c, r, ops). (c, r))
              (fst (cell_loop f data (4 * p + 4) (snd (render_cell f data (4 * p) k)))) =
            map (\<lambda>q. (q mod cols f, q div cols f)) [Suc p..<n]"
  proof -
    have "m = n - Suc p" using Suc.hyps(2) by simp
    moreover have "Suc p \<le> n" using lt by simp
    ultimately show ?thesis using Suc.hyps(1) [of "Suc p"] unfolding next4 by blast
  qed
  have here: "cell_col f (4 * p) = p mod cols f" "cell_row f (4 * p) = p div cols f"
    by (simp_all add: cell_col_def cell_row_def)
  have "[p..<n] = p # [Suc p..<n]" using lt by (rule upt_conv_Cons)
  then show ?case
    by (simp only: cell_loop_step [OF inr] list.map ih here prod.case)
qed

lemma row_major_Suc:
  "row_major c (Suc r) = row_major c r @ map (\<lambda>col. (col, r)) [0..<c]"
  by (simp add: row_major_def)

lemma upt_block: "[c * r..<c * r + c] = map (\<lambda>j. c * r + j) [0..<c]"
  by (simp add: map_add_upt add.commute)

lemma row_major_index:
  "0 < c \<Longrightarrow> map (\<lambda>q. (q mod c, q div c)) [0..<c * r] = row_major c r"
proof (induction r)
  case 0
  then show ?case by (simp add: row_major_def)
next
  case (Suc r)
  have eq: "c * Suc r = c * r + c" by simp
  have split: "[0..<c * Suc r] = [0..<c * r] @ [c * r..<c * r + c]"
    unfolding eq by (rule upt_add_eq_append) simp
  have blk: "map (\<lambda>q. (q mod c, q div c)) [c * r..<c * r + c] = map (\<lambda>col. (col, r)) [0..<c]"
    using Suc.prems by (simp add: upt_block)
  show ?case
    using Suc by (simp only: split map_append blk row_major_Suc)
qed

lemma set_row_major: "set (row_major c r) = {0..<c} \<times> {0..<r}"
  by (auto simp add: row_major_def)

lemma distinct_row_major: "distinct (row_major c r)"
proof (induction r)
  case 0
  then show ?case by (simp add: row_major_def)
next
  case (Suc r)
  have "distinct (map (\<lambda>col. (col, r)) [0..<c])"
    by (simp add: distinct_map inj_on_def)
  moreover have "set (row_major c r) \<inter> set (map (\<lambda>col. (col, r)) [0..<c]) = {}"
    by (auto simp add: set_row_major)
  ultimately show ?case using Suc by (simp add: row_major_Suc)
qed

lemma cell_loop_all:
  assumes "\<And>j k'. j < length data \<Longrightarrow> 4 dvd j \<Longrightarrow>
             P (cell_col f j, cell_row f j, fst (render_cell f data j k'))"
  shows "4 dvd i \<Longrightarrow> \<forall>e \<in> set (fst (cell_loop f data i k)). P e"
proof (induction "length data - i" arbitrary: i k rule: less_induct)
  case less
  show ?case
  proof (cases "i < length data")
    case False
    then show ?thesis by (simp add: cell_loop_done)
  next
    case True
    have d4: "4 dvd (i + 4)" using less.prems by simp
    have smaller: "length data - (i + 4) < length data - i" using True by simp
    have rest: "\<forall>e \<in> set (fst (cell_loop f data (i + 4) (snd (render_cell f data i k)))). P e"
      using less.hyps [OF smaller d4] .
    have here: "P (cell_col f i, cell_row f i, fst (render_cell f data i k))"
      using assms [OF True less.prems] .
    show ?thesis
      unfolding cell_loop_step [OF True] using rest here by simp
  qed
qed

lemma loop_draws:
  assumes "density (settings f) = 1" "0 < cols f"
  shows "\<forall>e \<in> set (fst (cell_loop f data 0 k)).
           (case e of (c, r, ops) \<Rightarrow>
              length (filter is_draw ops) =
                (case brightness_at data (4 * (r * cols f + c)) of
                   None \<Rightarrow> 0
                 | Some br \<Rightarrow>
                     if br > effectiveThreshold (threshold (settings f)) (audioLevel f)
                     then 1 else 0))"
proof (rule cell_loop_all)
  show "4 dvd (0::nat)" by simp
next
  fix j k'
  assume "j < length data" and d: "4 dvd j"
  have "render_cell f data j k' = shade_cell f data j (cell_col f j) (cell_row f j) k'"
    using assms(1) by (simp add: render_cell_full_density)
  then show "case (cell_col f j, cell_row f j, fst (render_cell f data j k')) of
          (c, r, ops) \<Rightarrow>
            length (filter is_draw ops) =
              (case brightness_at data (4 * (r * cols f + c)) of
                 None \<Rightarrow> 0
               | Some br \<Rightarrow>
                   if br > effectiveThreshold (threshold (settings f)) (audioLevel f)
                   then 1 else 0)"
    by (simp only: prod.case cell_index_back [OF d assms(2)] shade_cell_draws)
qed

lemma text_draws_size:
  "filter is_font ops = [] \<Longrightarrow> \<forall>d \<in> set (text_draws sz ops). fst d = sz"
  by (induction sz ops rule: text_draws.induct) simp_all

lemma loop_ops_filter:
  "\<forall>e \<in> set es. filter P (snd (snd e)) = [] \<Longrightarrow> filter P (loop_ops es) = []"
  by (induction es) (auto simp add: loop_ops_def)

lemma no_font_loop:
  "filter is_font (loop_ops (fst (cell_loop f data 0 k))) = []"
proof -
  have "\<forall>e \<in> set (fst (cell_loop f data 0 k)). filter is_font (snd (snd e)) = []"
    by (rule cell_loop_all) (simp_all add: no_font_render_cell)
  then show ?thesis by (rule loop_ops_filter)
qed

lemma text_draws_frame:
  "filter is_font ops = [] \<Longrightarrow>
   \<forall>d \<in> set (text_draws sz0 (ClearRect a b c d # SetFont n # SetTextAlignCenter # SetTextBaselineMiddle # ops)). fst d = n"
  using text_draws_size [of ops n] by simp





subsection \<open>The sample inputs\<close>

lemma audioLevel_of_None: "audioLevel_of None = 0"
  by (simp add: audioLevel_of_def)

lemma audioLevel_of_loud: "audioLevel_of loud = 1"
  by (simp add: audioLevel_of_def loud_def sum_list_triv double_round_numeral double_round_one)




lemma brightness_of_425: "brightness_of 141 142 142 = 4984452712584533 / 35184372088832"
proof -
  have a: "(141::real) + 142 = 283" "(283::real) + 142 = 425" by simp_all
  have b: "double_round 283 = 283" "double_round 425 = 425"
    by (simp_all add: double_round_numeral)
  show ?thesis
    unfolding brightness_of_def by (simp only: a b double_round_425_thirds)
qed

lemma brightness_of_white: "brightness_of 255 255 255 = 255"
proof -
  have a: "(255::real) + 255 = 510" "(510::real) + 255 = 765" "(765::real) / 3 = 255"
    by simp_all
  have b: "double_round 510 = 510" "double_round 765 = 765" "double_round 255 = 255"
    by (simp_all add: double_round_numeral)
  show ?thesis
    unfolding brightness_of_def by (simp only: a b)
qed

lemma brightness_of_black: "brightness_of 0 0 0 = 0"
  by (simp add: brightness_of_def double_round_zero)

lemma sample_frame_eq:
  "pixelSize s = 8 \<Longrightarrow>
   sample_frame s an rnd =
     \<lparr>settings = s, time = 1000, elapsed = 1, audioLevel = audioLevel_of an,
      beat = audioLevel_of an powr 1.5, dynamicGlow = glow s + audioLevel_of an * 20,
      w = 24, h = 24, cellSize = 8, cols = 3, random = (\<lambda>n. rnd),
      mathSin = (\<lambda>x. double_round (sin x))\<rparr>"
  by (simp add: sample_frame_def frame_of_def sample_env_def grid_cols_def grid_pixelSize_def
        Let_def)

subsection \<open>One frame of a single white cell\<close>

text \<open>An 8 by 8 surface with the default 8 pixel cell, shape \<^verbatim>\<open>char\<close>, no animation,
  no audio, one white pixel: the whole log of the call.\<close>

lemma sample_render:
  "render (sample_env (DEFAULT_SETTINGS\<lparr>shape := Shape_char, animationMode := Anim_none\<rparr>) None 8 8 [255, 255, 255, 255] 0) 0 0
   = Inr \<lparr>surface = [ClearRect 0 0 8 8, SetFont (36 / 5), SetTextAlignCenter, SetTextBaselineMiddle,
              SetFillStyle (Hsl 0 0 100), SetShadowBlur 0, FillText (Some 49) 4 4],
         analysis = [Resize 1 1, SetComposite SourceOver, SetFillBlack, AnalysisFillRect 1 1,
              DrawImage Background 1 1, GetImageData 1 1],
         audioRead = False, scheduled = True, randomCalls = 0\<rparr>"
  by (simp add: render_def sample_env_def DEFAULT_SETTINGS_def bgReady_def camReady_def frame_of_def
      grid_cols_def grid_rows_def grid_pixelSize_def audioLevel_of_def Let_def
      cell_loop_step cell_loop_step_snd cell_loop_done render_cell_def density_skip_def cell_col_def cell_row_def
      shade_cell_def data_at_def effectiveThreshold_def draw_cell_def renderSize_of_def
      brightness_of_def double_round_zero double_round_one double_round_numeral
      animate_def fillStyle_of_def rgbToHsl_def glow_ops_def shape_ops_def isTextShape_def
      charIndex_of_def currentCharset_def CHAR_SETS_char_def js_rem_int_def charAt_def
      js_rem_def js_trunc_def font_ops_def loop_ops_def composition_ops_def split_beta)

lemma sin_three_halves_pos: "sin (3 / 2 :: real) > 0"
proof -
  have "(3 / 2 :: real) < pi" using pi_ge_two by simp
  then show ?thesis by (intro sin_gt_zero) simp_all
qed

lemma black_render:
  "render (sample_env (DEFAULT_SETTINGS\<lparr>shape := Shape_blocks, animationMode := Anim_none,
      threshold := 0\<rparr>) None 8 8 [0, 0, 0, 255] 0) 0 0
   = Inr \<lparr>surface = [ClearRect 0 0 8 8, SetFont (36 / 5), SetTextAlignCenter,
              SetTextBaselineMiddle],
         analysis = [Resize 1 1, SetComposite SourceOver, SetFillBlack, AnalysisFillRect 1 1,
              DrawImage Background 1 1, GetImageData 1 1],
         audioRead = False, scheduled = True, randomCalls = 0\<rparr>"
  by (simp add: render_def sample_env_def DEFAULT_SETTINGS_def bgReady_def camReady_def frame_of_def
      grid_cols_def grid_rows_def grid_pixelSize_def audioLevel_of_def Let_def
      cell_loop_step cell_loop_step_snd cell_loop_done render_cell_def density_skip_def cell_col_def cell_row_def
      shade_cell_def data_at_def effectiveThreshold_def brightness_of_def double_round_zero
      isTextShape_def font_ops_def loop_ops_def composition_ops_def split_beta)

section \<open>The claims\<close>

text \<open>
  Claim C1. With density 1.0 and a grid of at least one column and one row, the loop visits
  the cells in row-major order, each cell once: the sequence of visited cells is the
  row-major enumeration of the grid, which has no repetition and contains every cell.
  Every pixel of the grid can be read, and the iteration that visits a cell appends exactly
  one drawing command when the brightness of the cell exceeds the effective threshold and
  none otherwise; both are the doubles that the renderer compares. A drawing command is a call that paints: \<^verbatim>\<open>fillText\<close>,
  \<^verbatim>\<open>fillRect\<close>, \<^verbatim>\<open>stroke\<close> or \<^verbatim>\<open>fill\<close>. At any density, in any frame,
  one iteration appends at most one drawing command.
\<close>

theorem cell_loop_row_major:
  assumes "density (settings f) = 1" "1 \<le> cols f" "1 \<le> rows"
    and "length data = 4 * (cols f * rows)"
  shows "map (\<lambda>(c, r, ops). (c, r)) (fst (cell_loop f data 0 k)) = row_major (cols f) rows
       \<and> distinct (row_major (cols f) rows)
       \<and> set (row_major (cols f) rows) = {0..<cols f} \<times> {0..<rows}
       \<and> (\<forall>c<cols f. \<forall>r<rows. brightness_at data (4 * (r * cols f + c)) \<noteq> None)
       \<and> (\<forall>e \<in> set (fst (cell_loop f data 0 k)).
             (case e of (c, r, ops) \<Rightarrow>
                length (filter is_draw ops) =
                  (case brightness_at data (4 * (r * cols f + c)) of
                     None \<Rightarrow> 0
                   | Some br \<Rightarrow>
                       if br > effectiveThreshold (threshold (settings f)) (audioLevel f)
                       then 1 else 0)))
       \<and> length (filter is_draw (fst (render_cell f' data' i' k'))) \<le> 1"
proof -
  have pos: "0 < cols f" using assms(2) by simp
  have visits: "map (\<lambda>(c, r, ops). (c, r)) (fst (cell_loop f data 0 k)) = row_major (cols f) rows"
    using cell_loop_visits [OF assms(4), of 0 f k] row_major_index [OF pos, of rows] by simp
  have readable: "\<forall>c<cols f. \<forall>r<rows. brightness_at data (4 * (r * cols f + c)) \<noteq> None"
  proof (intro allI impI)
    fix c r
    assume c: "c < cols f" and r: "r < rows"
    have "r * cols f + c < Suc r * cols f" using c by simp
    also have "\<dots> \<le> rows * cols f" using r by (intro mult_le_mono1) simp
    finally have "4 * (r * cols f + c) + 2 < length data"
      using assms(4) by (simp add: mult.commute)
    then show "brightness_at data (4 * (r * cols f + c)) \<noteq> None"
      by (simp add: brightness_defined)
  qed
  show ?thesis
    using visits readable loop_draws [OF assms(1) pos, of data k]
      render_cell_at_most_one [of f' data' i' k']
    by (simp only: distinct_row_major set_row_major simp_thms)
qed

theorem cell_loop_row_major_witness:
  "map (\<lambda>(c, r, ops). (c, r))
     (fst (cell_loop (sample_frame DEFAULT_SETTINGS None 0)
            [255, 255, 255, 255, 0, 0, 0, 255, 90, 60, 30, 255,
             10, 20, 30, 255, 200, 100, 50, 255, 1, 2, 3, 255,
             0, 255, 0, 255, 60, 60, 60, 255, 20, 20, 21, 255] 0 0))
   = [(0, 0), (1, 0), (2, 0), (0, 1), (1, 1), (2, 1), (0, 2), (1, 2), (2, 2)]"
  using cell_loop_row_major [of "sample_frame DEFAULT_SETTINGS None 0" 3
          "[255, 255, 255, 255, 0, 0, 0, 255, 90, 60, 30, 255,
            10, 20, 30, 255, 200, 100, 50, 255, 1, 2, 3, 255,
            0, 255, 0, 255, 60, 60, 60, 255, 20, 20, 21, 255]" 0]
  by (simp add: sample_frame_eq DEFAULT_SETTINGS_def row_major_def upt_rec)

text \<open>
  Claim C2. The density gate skips a cell exactly when density < 1.0 and frac > density,
  with h and frac as the specification writes them, evaluated in the double arithmetic of
  the renderer with the engine's \<^verbatim>\<open>Math.sin\<close>; frac is never negative. A skipped cell
  appends nothing to the log and calls no random source. The decision is \<open>density_skip\<close>,
  a function of the density, the column and the row alone (for a given engine): it is the
  same in a frame with another timestamp, elapsed time, audio level, beat, glow and random
  source, for any pixel data and any number of earlier random calls.
\<close>

theorem density_gate_decision:
  "density_skip sn d col row = (d < 1 \<and> gate_frac sn col row > d)
   \<and> 0 \<le> gate_frac sn col row
   \<and> render_cell f data i k =
       (if density (settings f) < 1
           \<and> gate_frac (mathSin f) (cell_col f i) (cell_row f i) > density (settings f)
        then ([], k)
        else shade_cell f data i (cell_col f i) (cell_row f i) k)
   \<and> density_skip
         (mathSin (f\<lparr>time := t', elapsed := e', audioLevel := a', beat := b',
            dynamicGlow := g', random := rnd'\<rparr>))
         (density (settings (f\<lparr>time := t', elapsed := e', audioLevel := a', beat := b',
            dynamicGlow := g', random := rnd'\<rparr>)))
         (cell_col (f\<lparr>time := t', elapsed := e', audioLevel := a', beat := b',
            dynamicGlow := g', random := rnd'\<rparr>) i)
         (cell_row (f\<lparr>time := t', elapsed := e', audioLevel := a', beat := b',
            dynamicGlow := g', random := rnd'\<rparr>) i)
       = density_skip (mathSin f) (density (settings f)) (cell_col f i) (cell_row f i)"
proof -
  have decision: "density_skip sn d col row = (d < 1 \<and> gate_frac sn col row > d)"
    by (rule density_skip_spec)
  have "0 \<le> gate_h sn col row - of_int \<lfloor>gate_h sn col row\<rfloor>" by simp
  then have lower: "0 \<le> gate_frac sn col row"
    unfolding gate_frac_def by (rule double_round_nonneg)
  have cell: "render_cell f data i k =
       (if density (settings f) < 1
           \<and> gate_frac (mathSin f) (cell_col f i) (cell_row f i) > density (settings f)
        then ([], k)
        else shade_cell f data i (cell_col f i) (cell_row f i) k)"
    by (simp add: render_cell_def Let_def density_skip_spec)
  have pure: "density_skip
         (mathSin (f\<lparr>time := t', elapsed := e', audioLevel := a', beat := b',
            dynamicGlow := g', random := rnd'\<rparr>))
         (density (settings (f\<lparr>time := t', elapsed := e', audioLevel := a', beat := b',
            dynamicGlow := g', random := rnd'\<rparr>)))
         (cell_col (f\<lparr>time := t', elapsed := e', audioLevel := a', beat := b',
            dynamicGlow := g', random := rnd'\<rparr>) i)
         (cell_row (f\<lparr>time := t', elapsed := e', audioLevel := a', beat := b',
            dynamicGlow := g', random := rnd'\<rparr>) i)
       = density_skip (mathSin f) (density (settings f)) (cell_col f i) (cell_row f i)"
    by (simp add: cell_col_def cell_row_def)
  show ?thesis using decision lower cell pure by (simp only: simp_thms)
qed

theorem density_gate_decision_witness:
  "render_cell (sample_frame (DEFAULT_SETTINGS\<lparr>density := 0.5\<rparr>) None 0) [255, 255, 255, 255] 0 0
   = shade_cell (sample_frame (DEFAULT_SETTINGS\<lparr>density := 0.5\<rparr>) None 0) [255, 255, 255, 255] 0 0 0 0"
proof -
  let ?f = "sample_frame (DEFAULT_SETTINGS\<lparr>density := 0.5\<rparr>) None 0"
  have origin: "cell_col ?f 0 = 0" "cell_row ?f 0 = 0"
    by (simp_all add: cell_col_def cell_row_def)
  have kept: "\<not> gate_frac (mathSin ?f) 0 0 > density (settings ?f)"
    by (simp add: gate_frac_def gate_h_def double_round_zero sample_frame_eq
          audioLevel_of_None DEFAULT_SETTINGS_def)
  have "render_cell ?f [255, 255, 255, 255] 0 0 =
       (if density (settings ?f) < 1
           \<and> gate_frac (mathSin ?f) (cell_col ?f 0) (cell_row ?f 0) > density (settings ?f)
        then ([], 0)
        else shade_cell ?f [255, 255, 255, 255] 0 (cell_col ?f 0) (cell_row ?f 0) 0)"
    using density_gate_decision [of _ _ _ _ ?f "[255, 255, 255, 255]" 0 0] by blast
  then show ?thesis using kept by (simp only: origin if_False simp_thms)
qed



text \<open>
  Claim C4, as stated, fails: the glyph of the white cell of the single-cell frame is drawn
  with the font of size 7.2 that the call sets once before the loop, while
  pixelSize * 1.0 + audioSizeBoost is 8 there.
\<close>

theorem glyph_size_counterexample:
  "text_draws 10
     (surface (projr (render (sample_env (DEFAULT_SETTINGS\<lparr>shape := Shape_char,
         animationMode := Anim_none\<rparr>) None 8 8 [255, 255, 255, 255] 0) 0 0)))
     = [(36 / 5, Some 49, 4, 4)]
   \<and> renderSize_of (frame_of (sample_env (DEFAULT_SETTINGS\<lparr>shape := Shape_char,
         animationMode := Anim_none\<rparr>) None 8 8 [255, 255, 255, 255] 0) 0) 255 = 8
   \<and> fst (hd (text_draws 10
     (surface (projr (render (sample_env (DEFAULT_SETTINGS\<lparr>shape := Shape_char,
         animationMode := Anim_none\<rparr>) None 8 8 [255, 255, 255, 255] 0) 0 0)))))
     \<noteq> renderSize_of (frame_of (sample_env (DEFAULT_SETTINGS\<lparr>shape := Shape_char,
         animationMode := Anim_none\<rparr>) None 8 8 [255, 255, 255, 255] 0) 0) 255"
  by (simp add: sample_render)
     (simp add: renderSize_of_def frame_of_def sample_env_def DEFAULT_SETTINGS_def
        grid_pixelSize_def audioLevel_of_def isTextShape_def Let_def)

text \<open>
  Claim C4, amended. For a glyph shape, a call that draws sets the font once, before the
  loop, to bold monospace of size max(4, 0.9 * pixelSize + 2 * beat), with centre alignment
  and middle baseline, and every glyph of the frame is drawn in that font. The only drawing
  command of a cell is one glyph anchored at the animated position of the cell. The value
  pixelSize * 1.0 + audioSizeBoost is computed for the cell, and the glyph command does not
  depend on it.
\<close>

theorem glyph_font_size:
  assumes "isTextShape (shape (envSettings e))" "isPlaying e"
    and "bgReady (bgVideo e) \<or> camReady (camVideo e)"
    and "render e t k = Inr out"
  shows "take 4 (surface out) =
           [ClearRect 0 0 (real (canvasWidth e)) (real (canvasHeight e)),
            SetFont (max 4 (0.9 * real (grid_pixelSize (envSettings e)) + 2 * beat (frame_of e t))),
            SetTextAlignCenter, SetTextBaselineMiddle]
       \<and> (\<forall>d \<in> set (text_draws sz0 (surface out)).
             fst d = max 4 (0.9 * real (grid_pixelSize (envSettings e)) + 2 * beat (frame_of e t)))
       \<and> filter is_draw (fst (draw_cell (frame_of e t) col row r g b br k0)) =
           [FillText
              (charAt (currentCharset (shape (envSettings e)))
                 (js_rem_int
                    (fst (charIndex_of (frame_of e t) col row br
                       (snd (animate (frame_of e t) (elapsed (frame_of e t) * (1 + beat (frame_of e t) * 2))
                          (real col * real (grid_pixelSize (envSettings e)) + real (grid_pixelSize (envSettings e)) / 2)
                          (real row * real (grid_pixelSize (envSettings e)) + real (grid_pixelSize (envSettings e)) / 2)
                          k0))))
                    (int (length (currentCharset (shape (envSettings e)))))))
              (fst (fst (animate (frame_of e t) (elapsed (frame_of e t) * (1 + beat (frame_of e t) * 2))
                 (real col * real (grid_pixelSize (envSettings e)) + real (grid_pixelSize (envSettings e)) / 2)
                 (real row * real (grid_pixelSize (envSettings e)) + real (grid_pixelSize (envSettings e)) / 2)
                 k0)))
              (snd (fst (animate (frame_of e t) (elapsed (frame_of e t) * (1 + beat (frame_of e t) * 2))
                 (real col * real (grid_pixelSize (envSettings e)) + real (grid_pixelSize (envSettings e)) / 2)
                 (real row * real (grid_pixelSize (envSettings e)) + real (grid_pixelSize (envSettings e)) / 2)
                 k0)))]
       \<and> renderSize_of (frame_of e t) br =
           real (grid_pixelSize (envSettings e)) * 1
           + br / 255 * beat (frame_of e t) * real (grid_pixelSize (envSettings e))
       \<and> shape_ops (frame_of e t) col row br rs x y c k0
           = shape_ops (frame_of e t) col row br rs' x y c k0"
proof -
  let ?f = "frame_of e t"
  let ?n = "max 4 (0.9 * real (grid_pixelSize (envSettings e)) + 2 * beat ?f)"
  have sh: "isTextShape (shape (settings ?f))"
    using assms(1) by (simp add: frame_of_def Let_def)
  have sel: "settings ?f = envSettings e" "cellSize ?f = grid_pixelSize (envSettings e)"
    by (simp_all add: frame_of_def Let_def)
  have log: "surface out =
      ClearRect 0 0 (real (canvasWidth e)) (real (canvasHeight e)) # SetFont ?n
      # SetTextAlignCenter # SetTextBaselineMiddle
      # loop_ops (fst (cell_loop ?f (frameData e) 0 k))"
    using assms sel
    by (auto simp add: render_def Let_def split_beta font_ops_def mult.commute
          split: if_splits)
  have head: "take 4 (surface out) =
      [ClearRect 0 0 (real (canvasWidth e)) (real (canvasHeight e)), SetFont ?n,
       SetTextAlignCenter, SetTextBaselineMiddle]"
    by (simp add: log)
  have sizes: "\<forall>d \<in> set (text_draws sz0 (surface out)). fst d = ?n"
    unfolding log by (rule text_draws_frame) (rule no_font_loop)
  have cell: "filter is_draw (fst (draw_cell ?f col row r g b br k0)) =
           [FillText
              (charAt (currentCharset (shape (envSettings e)))
                 (js_rem_int
                    (fst (charIndex_of ?f col row br
                       (snd (animate ?f (elapsed ?f * (1 + beat ?f * 2))
                          (real col * real (grid_pixelSize (envSettings e)) + real (grid_pixelSize (envSettings e)) / 2)
                          (real row * real (grid_pixelSize (envSettings e)) + real (grid_pixelSize (envSettings e)) / 2)
                          k0))))
                    (int (length (currentCharset (shape (envSettings e)))))))
              (fst (fst (animate ?f (elapsed ?f * (1 + beat ?f * 2))
                 (real col * real (grid_pixelSize (envSettings e)) + real (grid_pixelSize (envSettings e)) / 2)
                 (real row * real (grid_pixelSize (envSettings e)) + real (grid_pixelSize (envSettings e)) / 2)
                 k0)))
              (snd (fst (animate ?f (elapsed ?f * (1 + beat ?f * 2))
                 (real col * real (grid_pixelSize (envSettings e)) + real (grid_pixelSize (envSettings e)) / 2)
                 (real row * real (grid_pixelSize (envSettings e)) + real (grid_pixelSize (envSettings e)) / 2)
                 k0)))]"
    using sh
    by (simp add: draw_cell_def Let_def split_beta glow_no_draw shape_ops_text sel)
  have size: "renderSize_of ?f br =
           real (grid_pixelSize (envSettings e)) * 1
           + br / 255 * beat ?f * real (grid_pixelSize (envSettings e))"
    using sh by (simp add: renderSize_of_def Let_def sel)
  have unused: "shape_ops ?f col row br rs x y c k0 = shape_ops ?f col row br rs' x y c k0"
    using sh by (simp add: shape_ops_text)
  show ?thesis using head sizes cell size unused by (simp only: simp_thms)
qed

theorem glyph_font_size_witness:
  "take 4 (surface (projr (render (sample_env (DEFAULT_SETTINGS\<lparr>shape := Shape_char\<rparr>) None 8 8
         [255, 255, 255, 255] 0) 0 0)))
   = [ClearRect 0 0 8 8, SetFont (36 / 5), SetTextAlignCenter, SetTextBaselineMiddle]"
proof -
  let ?e = "sample_env (DEFAULT_SETTINGS\<lparr>shape := Shape_char\<rparr>) None 8 8 [255, 255, 255, 255] 0"
  have a: "isTextShape (shape (envSettings ?e))"
    by (simp add: sample_env_def DEFAULT_SETTINGS_def isTextShape_def)
  have b: "isPlaying ?e" by (simp add: sample_env_def)
  have c: "bgReady (bgVideo ?e) \<or> camReady (camVideo ?e)"
    by (simp add: sample_env_def bgReady_def)
  have d: "render ?e 0 0 = Inr (projr (render ?e 0 0))"
    by (simp add: render_def sample_env_def DEFAULT_SETTINGS_def bgReady_def grid_cols_def
          grid_rows_def grid_pixelSize_def Let_def split_beta)
  have n: "max 4 (0.9 * real (grid_pixelSize (envSettings ?e)) + 2 * beat (frame_of ?e 0)) = 36 / 5"
    by (simp add: sample_env_def DEFAULT_SETTINGS_def grid_pixelSize_def frame_of_def
          audioLevel_of_def Let_def)
  have size: "real (canvasWidth ?e) = 8" "real (canvasHeight ?e) = 8"
    by (simp_all add: sample_env_def)
  show ?thesis
    using glyph_font_size [OF a b c d, of 10] unfolding n size by blast
qed

text \<open>
  Claim C5, as stated, fails. On a 24 by 24 surface with 8 pixel cells the centre of cell
  (1, 1) is the surface centre (12, 12); one second after the start and without audio the
  animation time is 1, and the ripple moves the cell away from (12, 12).
\<close>

theorem ripple_centre_counterexample:
  "real 1 * real (cellSize (sample_frame (DEFAULT_SETTINGS\<lparr>animationMode := Anim_ripple\<rparr>) None 0))
     + real (cellSize (sample_frame (DEFAULT_SETTINGS\<lparr>animationMode := Anim_ripple\<rparr>) None 0)) / 2
     = real (w (sample_frame (DEFAULT_SETTINGS\<lparr>animationMode := Anim_ripple\<rparr>) None 0)) / 2
   \<and> real (w (sample_frame (DEFAULT_SETTINGS\<lparr>animationMode := Anim_ripple\<rparr>) None 0)) / 2 = 12
   \<and> real (h (sample_frame (DEFAULT_SETTINGS\<lparr>animationMode := Anim_ripple\<rparr>) None 0)) / 2 = 12
   \<and> elapsed (sample_frame (DEFAULT_SETTINGS\<lparr>animationMode := Anim_ripple\<rparr>) None 0)
       * (1 + beat (sample_frame (DEFAULT_SETTINGS\<lparr>animationMode := Anim_ripple\<rparr>) None 0) * 2)
       = 1
   \<and> fst (animate (sample_frame (DEFAULT_SETTINGS\<lparr>animationMode := Anim_ripple\<rparr>) None 0)
          1 12 12 0) \<noteq> (12, 12)"
  using sin_three_halves_pos
  by (simp add: animate_def Let_def atan2_zero sample_frame_eq audioLevel_of_None audioLevel_of_loud DEFAULT_SETTINGS_def)

text \<open>
  Claim C5, amended. Under ripple, a cell whose centre is the surface centre is moved
  horizontally by sin(-1.5 * audioTime) * (15 + 15 * beat) and not vertically (in exact
  arithmetic): the distance term is 0, the time term is not. The displacement is zero at
  animation time 0.
\<close>

theorem ripple_at_centre:
  assumes "animationMode (settings f) = Anim_ripple"
  shows "animate f a (real (w f) / 2) (real (h f) / 2) k =
           ((real (w f) / 2 + sin (- (1.5 * a)) * (15 + 15 * beat f), real (h f) / 2), k)
       \<and> animate f 0 (real (w f) / 2) (real (h f) / 2) k
           = ((real (w f) / 2, real (h f) / 2), k)"
  using assms by (simp add: animate_def Let_def sin_atan2_zero atan2_zero mult.commute)

theorem ripple_at_centre_witness:
  "animate (sample_frame (DEFAULT_SETTINGS\<lparr>animationMode := Anim_ripple\<rparr>) None 0) 0 12 12 0
   = ((12, 12), 0)"
  using ripple_at_centre
          [of "sample_frame (DEFAULT_SETTINGS\<lparr>animationMode := Anim_ripple\<rparr>) None 0" 0 0]
  by (simp add: sample_frame_eq audioLevel_of_None audioLevel_of_loud DEFAULT_SETTINGS_def)

text \<open>
  Claim C6. In colour mode matrix the fill colour of a drawn cell has hue
  (120 + hueShift) % 360, saturation 100 and lightness min(100, L * 1.5 + beat * 30), where
  L is the HSL lightness of the pixel; neither the hue nor the saturation of the pixel
  occurs in it. For hueShift of at least -120 the remainder is the mathematical one and
  lies in [0, 360).
\<close>

theorem matrix_color_mode:
  assumes "colorMode (settings f) = Mode_matrix"
  shows "hd (fst (draw_cell f col row r g b br k)) =
           SetFillStyle (Hsl (js_rem (120 + hueShift (settings f)) 360) 100
             (min 100 (hsl_l (rgbToHsl r g b) * 1.5 + beat f * 30)))
       \<and> fillStyle_of (settings f) (beat f) c =
           Hsl (js_rem (120 + hueShift (settings f)) 360) 100
             (min 100 (hsl_l c * 1.5 + beat f * 30))
       \<and> hsl_l (rgbToHsl r g b) = (max r (max g b) + min r (min g b)) / 2 / 255 * 100
       \<and> (- 120 \<le> hueShift (settings f) \<longrightarrow>
            js_rem (120 + hueShift (settings f)) 360 =
              120 + hueShift (settings f)
              - 360 * of_int \<lfloor>(120 + hueShift (settings f)) / 360\<rfloor>
            \<and> 0 \<le> js_rem (120 + hueShift (settings f)) 360
            \<and> js_rem (120 + hueShift (settings f)) 360 < 360)"
proof -
  have fill: "fillStyle_of (settings f) (beat f) c' =
           Hsl (js_rem (120 + hueShift (settings f)) 360) 100
             (min 100 (hsl_l c' * 1.5 + beat f * 30))" for c'
    using assms by (simp add: fillStyle_of_def Let_def)
  have first: "hd (fst (draw_cell f col row r g b br k)) =
           SetFillStyle (Hsl (js_rem (120 + hueShift (settings f)) 360) 100
             (min 100 (hsl_l (rgbToHsl r g b) * 1.5 + beat f * 30)))"
    by (simp only: draw_cell_hd fill)
  have light: "hsl_l (rgbToHsl r g b) = (max r (max g b) + min r (min g b)) / 2 / 255 * 100"
    by (simp add: rgbToHsl_def Let_def max_def min_def)
  have rem: "js_rem (120 + hueShift (settings f)) 360 =
              120 + hueShift (settings f)
              - 360 * of_int \<lfloor>(120 + hueShift (settings f)) / 360\<rfloor>
            \<and> 0 \<le> js_rem (120 + hueShift (settings f)) 360
            \<and> js_rem (120 + hueShift (settings f)) 360 < 360"
    if "- 120 \<le> hueShift (settings f)"
  proof -
    let ?a = "120 + hueShift (settings f)"
    have a: "0 \<le> ?a" using that by simp
    have eq: "js_rem ?a 360 = ?a - 360 * of_int \<lfloor>?a / 360\<rfloor>"
      using a by (simp add: js_rem_nonneg)
    have lo: "of_int \<lfloor>?a / 360\<rfloor> \<le> ?a / 360" by (rule of_int_floor_le)
    have hi: "?a / 360 < of_int \<lfloor>?a / 360\<rfloor> + 1" by (rule real_of_int_floor_add_one_gt)
    from lo have "360 * of_int \<lfloor>?a / 360\<rfloor> \<le> ?a" by simp
    moreover from hi have "?a < 360 * (of_int \<lfloor>?a / 360\<rfloor> + 1)" by (simp add: field_simps)
    ultimately show ?thesis using eq by (simp add: algebra_simps)
  qed
  show ?thesis using first fill [of c] light rem by blast
qed

theorem matrix_color_mode_witness:
  "fillStyle_of (DEFAULT_SETTINGS\<lparr>colorMode := Mode_matrix\<rparr>) 0 (rgbToHsl 255 0 0)
   = Hsl 120 100 75"
  using matrix_color_mode
          [of "sample_frame (DEFAULT_SETTINGS\<lparr>colorMode := Mode_matrix\<rparr>) None 0" 0 0 255 0 0 255 0
              "rgbToHsl 255 0 0"]
  by (simp add: sample_frame_eq audioLevel_of_None audioLevel_of_loud DEFAULT_SETTINGS_def js_rem_def js_trunc_def)

text \<open>
  Claim C7, as stated, fails at brightness 0: the cell yields no glyph at all. On a
  single-cell surface with shape blocks, threshold 0, no audio and a black pixel the call
  draws nothing, so the glyph of index 0 is not drawn either.
\<close>

theorem dark_cell_counterexample:
  "brightness_at [0, 0, 0, 255] 0 = Some 0
   \<and> glyphs_of (surface (projr (render
         (sample_env (DEFAULT_SETTINGS\<lparr>shape := Shape_blocks, animationMode := Anim_none,
            threshold := 0\<rparr>) None 8 8 [0, 0, 0, 255] 0) 0 0))) = []
   \<and> glyphs_of (surface (projr (render
         (sample_env (DEFAULT_SETTINGS\<lparr>shape := Shape_blocks, animationMode := Anim_none,
            threshold := 0\<rparr>) None 8 8 [0, 0, 0, 255] 0) 0 0)))
       \<noteq> [charAt CHAR_SETS_blocks 0]"
  by (simp add: black_render brightness_at_def data_at_def brightness_of_black)

text \<open>
  Claim C7, amended. For shapes blocks and ascii the glyph index of a drawn cell is
  floor((brightness / 255) * (tableLen - 1)) in the double arithmetic of the renderer, and
  if beat > 0.1 it is increased by floor(2 * beat) and clamped to tableLen - 1. Brightness
  255 yields index tableLen - 1 for every beat that is not negative, in particular for
  beat 0. A cell of brightness 0 yields no glyph: the threshold gate skips it, because the
  effective threshold is never negative.
\<close>

theorem ramp_glyph_index:
  assumes "shape (settings f) = Shape_blocks \<or> shape (settings f) = Shape_ascii"
  shows "charIndex_of f col row br k =
           (if beat f > 0.1
            then min (int (length (currentCharset (shape (settings f)))) - 1)
                   (\<lfloor>double_round (double_round (br / 255)
                       * real_of_int (int (length (currentCharset (shape (settings f)))) - 1))\<rfloor>
                     + \<lfloor>double_round (2 * beat f)\<rfloor>)
            else \<lfloor>double_round (double_round (br / 255)
                       * real_of_int (int (length (currentCharset (shape (settings f)))) - 1))\<rfloor>,
            k)
       \<and> (0 \<le> beat f \<longrightarrow>
            fst (charIndex_of f col row 255 k)
              = int (length (currentCharset (shape (settings f)))) - 1)
       \<and> (brightness_at data i = Some 0 \<longrightarrow> shade_cell f data i col row k = ([], k))"
proof -
  have formula: "charIndex_of f col row br k =
           (if beat f > 0.1
            then min (int (length (currentCharset (shape (settings f)))) - 1)
                   (\<lfloor>double_round (double_round (br / 255)
                       * real_of_int (int (length (currentCharset (shape (settings f)))) - 1))\<rfloor>
                     + \<lfloor>double_round (2 * beat f)\<rfloor>)
            else \<lfloor>double_round (double_round (br / 255)
                       * real_of_int (int (length (currentCharset (shape (settings f)))) - 1))\<rfloor>,
            k)"
    using assms by (auto simp add: charIndex_of_def Let_def mult.commute)
  have full: "fst (charIndex_of f col row 255 k)
              = int (length (currentCharset (shape (settings f)))) - 1" if "0 \<le> beat f"
  proof -
    have "0 \<le> double_round (beat f * 2)" using that by (intro double_round_nonneg) simp
    then have "0 \<le> \<lfloor>double_round (beat f * 2)\<rfloor>" by simp
    then show ?thesis
      using assms
      by (auto simp add: charIndex_of_def Let_def charset_length double_round_one
            double_round_numeral)
  qed
  have dark: "shade_cell f data i col row k = ([], k)" if "brightness_at data i = Some 0"
    using that by (simp add: shade_cell_brightness effectiveThreshold_def)
  show ?thesis using formula full dark by blast
qed

text \<open>The witness is a tie of exact arithmetic: shape ascii and the pixel (141, 142, 142)
  of sum 425. The exact product (425 / 3 / 255) * 9 is 5; the doubles give
  4.999999999999999 and the index 4.\<close>

theorem ramp_glyph_index_witness:
  "brightness_at [141, 142, 142, 255] 0 = Some (brightness_of 141 142 142)
   \<and> fst (charIndex_of (sample_frame (DEFAULT_SETTINGS\<lparr>shape := Shape_ascii\<rparr>) None 0) 0 0
          (brightness_of 141 142 142) 0) = 4"
proof -
  let ?f = "sample_frame (DEFAULT_SETTINGS\<lparr>shape := Shape_ascii\<rparr>) None 0"
  have sh: "shape (settings ?f) = Shape_ascii"
    by (simp add: sample_frame_eq DEFAULT_SETTINGS_def)
  have quiet: "\<not> beat ?f > 0.1"
    by (simp add: sample_frame_eq DEFAULT_SETTINGS_def audioLevel_of_None)
  have len: "real_of_int (int (length (currentCharset (shape (settings ?f)))) - 1) = 9"
    by (simp add: sh charset_length)
  have "charIndex_of ?f 0 0 (brightness_of 141 142 142) 0 =
           (if beat ?f > 0.1
            then min (int (length (currentCharset (shape (settings ?f)))) - 1)
                   (\<lfloor>double_round (double_round (brightness_of 141 142 142 / 255)
                       * real_of_int (int (length (currentCharset (shape (settings ?f)))) - 1))\<rfloor>
                     + \<lfloor>double_round (2 * beat ?f)\<rfloor>)
            else \<lfloor>double_round (double_round (brightness_of 141 142 142 / 255)
                       * real_of_int (int (length (currentCharset (shape (settings ?f)))) - 1))\<rfloor>,
            0)"
    using ramp_glyph_index [of ?f 0 0 "brightness_of 141 142 142" 0] sh by blast
  then have "fst (charIndex_of ?f 0 0 (brightness_of 141 142 142) 0) =
           \<lfloor>double_round (double_round (brightness_of 141 142 142 / 255) * 9)\<rfloor>"
    by (simp only: quiet if_False len fst_conv)
  also have "\<dots> = \<lfloor>5629499534213119 / 1125899906842624 :: real\<rfloor>"
    by (simp only: brightness_of_425 double_round_425_normalized double_round_425_scaled)
  also have "\<dots> = 4" by simp
  finally have idx: "fst (charIndex_of ?f 0 0 (brightness_of 141 142 142) 0) = 4" .
  have "brightness_at [141, 142, 142, 255] 0 = Some (brightness_of 141 142 142)"
    by (simp add: brightness_at_def data_at_def)
  then show ?thesis using idx by (simp only: simp_thms)
qed

text \<open>
  Claim C8. When neither the background video nor the webcam is ready, a call of the
  render callback makes no call on the analysis canvas (no composition and no read of the
  pixel buffer), makes no call on the output surface (no clear and no drawing command),
  calls no random source, and requests the next animation frame. The audio spectrum is
  still sampled when the canvas is playing and an analyser is attached.
\<close>

theorem no_source_no_draw:
  assumes "\<not> bgReady (bgVideo e)" "\<not> camReady (camVideo e)"
  shows "render e t k =
           Inr \<lparr>surface = [], analysis = [],
                audioRead = (isPlaying e \<and> analyser e \<noteq> None),
                scheduled = True, randomCalls = k\<rparr>"
  using assms by (simp add: render_def)

theorem no_source_no_draw_witness:
  "render ((sample_env DEFAULT_SETTINGS None 24 24 [] 0)
            \<lparr>bgVideo := Some \<lparr>readyState = 1, src = ''clip'', srcObject = False\<rparr>,
             camVideo := Some \<lparr>readyState = 4, src = [], srcObject = False\<rparr>\<rparr>) 16 7
   = Inr \<lparr>surface = [], analysis = [], audioRead = False, scheduled = True,
          randomCalls = 7\<rparr>"
  using no_source_no_draw
          [of "(sample_env DEFAULT_SETTINGS None 24 24 [] 0)
                 \<lparr>bgVideo := Some \<lparr>readyState = 1, src = ''clip'', srcObject = False\<rparr>,
                  camVideo := Some \<lparr>readyState = 4, src = [], srcObject = False\<rparr>\<rparr>" 16 7]
  by (simp add: sample_env_def bgReady_def camReady_def)

text \<open>
  Claim C9. For every glyph shape, every brightness from 0 and every frame timestamp from 0,
  the glyph that is drawn is read at the computed index taken modulo the table length;
  that position lies inside the table, so the read yields a glyph of the table. For shape
  char at brightness 255 the computed index equals the table length and the glyph drawn is
  the one at position 0.
\<close>

theorem glyph_lookup_in_bounds:
  assumes "isTextShape (shape (settings f))" "0 \<le> br" "br \<le> 255" "0 \<le> time f"
  shows "shape_ops f col row br rs x y c k =
           ([FillText
               (charAt (currentCharset (shape (settings f)))
                  (js_rem_int (fst (charIndex_of f col row br k))
                     (int (length (currentCharset (shape (settings f))))))) x y],
            snd (charIndex_of f col row br k))
       \<and> 0 \<le> js_rem_int (fst (charIndex_of f col row br k))
                (int (length (currentCharset (shape (settings f)))))
       \<and> js_rem_int (fst (charIndex_of f col row br k))
            (int (length (currentCharset (shape (settings f)))))
           < int (length (currentCharset (shape (settings f))))
       \<and> (\<exists>gl. charAt (currentCharset (shape (settings f)))
                  (js_rem_int (fst (charIndex_of f col row br k))
                     (int (length (currentCharset (shape (settings f)))))) = Some gl
              \<and> gl \<in> set (currentCharset (shape (settings f))))
       \<and> (shape (settings f) = Shape_char \<longrightarrow>
            fst (charIndex_of f col row 255 k) = int (length CHAR_SETS_char)
            \<and> shape_ops f col row 255 rs x y c k
                = ([FillText (Some (CHAR_SETS_char ! 0)) x y], k))"
proof -
  note range = charIndex_final_in_range [OF assms(2) assms(4), of col row k]
  have glyph: "\<exists>gl. charAt (currentCharset (shape (settings f)))
                  (js_rem_int (fst (charIndex_of f col row br k))
                     (int (length (currentCharset (shape (settings f)))))) = Some gl
              \<and> gl \<in> set (currentCharset (shape (settings f)))"
    using range by (intro charAt_in_range) simp_all
  have wrap: "fst (charIndex_of f col row 255 k) = int (length CHAR_SETS_char)
            \<and> shape_ops f col row 255 rs x y c k
                = ([FillText (Some (CHAR_SETS_char ! 0)) x y], k)"
    if "shape (settings f) = Shape_char"
    using that
    by (simp add: charIndex_of_def shape_ops_def isTextShape_def currentCharset_def
          CHAR_SETS_char_def Let_def js_rem_int_def charAt_def double_round_one
          double_round_numeral)
  show ?thesis
    using shape_ops_text [OF assms(1), of col row br rs x y c k] range glyph wrap by blast
qed

theorem glyph_lookup_in_bounds_witness:
  "shape_ops (sample_frame (DEFAULT_SETTINGS\<lparr>shape := Shape_char\<rparr>) None 0) 0 0 255 8 4 4
     (Hsl 0 0 100) 0 = ([FillText (Some 49) 4 4], 0)"
proof -
  let ?f = "sample_frame (DEFAULT_SETTINGS\<lparr>shape := Shape_char\<rparr>) None 0"
  have sh: "shape (settings ?f) = Shape_char"
    by (simp add: sample_frame_eq audioLevel_of_None audioLevel_of_loud DEFAULT_SETTINGS_def)
  have a: "isTextShape (shape (settings ?f))" by (simp add: sh isTextShape_def)
  have b: "(0::real) \<le> 255" "(255::real) \<le> 255" by simp_all
  have c: "0 \<le> time ?f"
    by (simp add: sample_frame_eq audioLevel_of_None DEFAULT_SETTINGS_def)
  have "shape_ops ?f 0 0 255 8 4 4 (Hsl 0 0 100) 0
          = ([FillText (Some (CHAR_SETS_char ! 0)) 4 4], 0)"
    using glyph_lookup_in_bounds [OF a b c, of 0 0 8 4 4 "Hsl 0 0 100" 0] sh by blast
  then show ?thesis by (simp add: CHAR_SETS_char_def)
qed



end
